theory Spec2Isabelle
  imports Main
begin

section \<open>The load-balancer test service: app/main.py\<close>

text \<open>
  The module under verification is
  \<^verbatim>\<open>
  from fastapi import FastAPI
  import socket

  app = FastAPI()

  @app.get("/")
  def read_root():
      return {"message": "Hello from FastAPI", "hostname": socket.gethostname()}
  \<close>
  It has one function of its own, \<open>read_root\<close>, and two calls into the FastAPI
  library: the constructor \<open>FastAPI()\<close> and the decorator \<open>app.get("/")\<close>. The
  function is translated line by line. The two library calls are given the meaning they
  have in the library (FastAPI on Starlette), as far as the properties below need it:
  the route table the constructor starts with, the registration the decorator performs,
  and the way the application object turns a request into a response: building its
  middleware stack, matching routes by regular expression, rendering the handler's
  result as JSON, and answering exceptions.
\<close>

subsection \<open>Python values and exceptions\<close>

text \<open>
  The values the handler builds: strings and one dictionary literal. A dictionary is an
  association list in insertion order. \<open>PyNone\<close> is Python's \<open>None\<close>, the "null" a
  field could in principle hold.

  A Python \<open>str\<close> is represented by a byte string: a \<open>str\<close> without lone surrogates by
  its UTF-8 encoding. \<open>socket.gethostname()\<close> decodes the bytes of the host name with
  the filesystem encoding, taken to be UTF-8 here, and the \<open>surrogateescape\<close> error
  handler, so a name that is not well-formed UTF-8 comes back as a \<open>str\<close> with one
  lone surrogate for every offending byte; such a \<open>str\<close> is represented by the bytes of
  the name themselves. A \<open>str\<close> can therefore be encoded as UTF-8 exactly when its
  representation is well-formed UTF-8.
\<close>

datatype pyval = PyNone | PyStr string | PyDict "(string \<times> pyval) list"

text \<open>
  \<open>socket.gethostname()\<close> raises \<open>OSError\<close> (with an errno) when the system call fails;
  \<open>str.encode("utf-8")\<close> raises \<open>UnicodeEncodeError\<close> on a lone surrogate.
\<close>

datatype exn = OSError int | UnicodeEncodeError

text \<open>
  Well-formed UTF-8, byte by byte: \<open>k\<close> continuation bytes are still expected and the
  next one must lie between \<open>lo\<close> and \<open>hi\<close>. Overlong forms, encoded surrogates and
  values above U+10FFFF are refused, as the strict codec refuses them.
\<close>

fun utf8_scan :: "nat \<Rightarrow> nat \<Rightarrow> nat \<Rightarrow> nat list \<Rightarrow> bool" where
  "utf8_scan k lo hi [] = (k = 0)"
| "utf8_scan k lo hi (b # bs) =
     (if k = 0 then
        (if b < 0x80 then utf8_scan 0 0 0 bs
         else if 0xC2 \<le> b \<and> b \<le> 0xDF then utf8_scan 1 0x80 0xBF bs
         else if b = 0xE0 then utf8_scan 2 0xA0 0xBF bs
         else if b = 0xED then utf8_scan 2 0x80 0x9F bs
         else if 0xE1 \<le> b \<and> b \<le> 0xEF then utf8_scan 2 0x80 0xBF bs
         else if b = 0xF0 then utf8_scan 3 0x90 0xBF bs
         else if 0xF1 \<le> b \<and> b \<le> 0xF3 then utf8_scan 3 0x80 0xBF bs
         else if b = 0xF4 then utf8_scan 3 0x80 0x8F bs
         else False)
      else (lo \<le> b \<and> b \<le> hi \<and> utf8_scan (k - 1) 0x80 0xBF bs))"

definition utf8_valid :: "string \<Rightarrow> bool" where
  "utf8_valid s = utf8_scan 0 0 0 (map of_char s)"

text \<open>A value can be rendered as JSON when every string in it can be encoded.\<close>

fun encodable :: "pyval \<Rightarrow> bool" and encodable_items :: "(string \<times> pyval) list \<Rightarrow> bool" where
  "encodable PyNone = True"
| "encodable (PyStr s) = utf8_valid s"
| "encodable (PyDict kvs) = encodable_items kvs"
| "encodable_items [] = True"
| "encodable_items ((k, v) # kvs) = (utf8_valid k \<and> encodable v \<and> encodable_items kvs)"

subsection \<open>The operating environment\<close>

text \<open>
  What lies outside the process: the answer the operating system currently gives to
  \<open>gethostname\<close> (a name, or a failure), and the record of the calls the process has
  made out of itself, oldest first. A write to disk or a call to an external service
  would show as an entry of that record. The handler is written in state-passing style
  over this environment.
\<close>

record world =
  hostname :: "exn + string"
  syscalls :: "string list"

definition socket_gethostname :: "world \<Rightarrow> (exn + string) \<times> world" where
  "socket_gethostname w = (hostname w, w\<lparr>syscalls := syscalls w @ [''gethostname'']\<rparr>)"

subsection \<open>The handler\<close>

text \<open>
  The dictionary display is evaluated left to right: the \<open>message\<close> entry is a literal,
  the \<open>hostname\<close> entry calls \<open>socket.gethostname()\<close>. The function has no
  \<open>try\<close>: an exception of that call leaves \<open>read_root\<close> as it is.
\<close>

definition read_root :: "world \<Rightarrow> (exn + pyval) \<times> world" where
  "read_root w =
     (case socket_gethostname w of
        (Inl e, w') \<Rightarrow> (Inl e, w')
      | (Inr h, w') \<Rightarrow>
          (Inr (PyDict [(''message'', PyStr ''Hello from FastAPI''), (''hostname'', PyStr h)]), w'))"

fun dict_get :: "pyval \<Rightarrow> string \<Rightarrow> pyval option" where
  "dict_get (PyDict kvs) k = map_of kvs k"
| "dict_get _ k = None"

fun dict_keys :: "pyval \<Rightarrow> string list" where
  "dict_keys (PyDict kvs) = map fst kvs"
| "dict_keys _ = []"

subsection \<open>Requests and responses\<close>

record request =
  http_method :: string
  path :: string
  query_string :: string
  headers :: "(string \<times> string) list"
  body :: string

text \<open>
  The pages the library serves by itself are not modelled in their content: a response
  carrying one of them names the page.
\<close>

datatype docs_page = openapi | swagger_ui_html | swagger_ui_redirect | redoc_html

datatype content =
    JSONContent pyval
  | TextContent string
  | DocsContent docs_page
  | NoContent

text \<open>
  A response is its status code, its media type (the \<open>Content-Type\<close> header without
  a charset parameter; \<open>None\<close> when the header is absent) and its content. Other
  headers (\<open>Content-Length\<close>, \<open>Allow\<close>, \<open>Location\<close>) are not modelled.
\<close>

record response =
  status_code :: nat
  media_type :: "string option"
  content :: content

definition JSONResponse :: "pyval \<Rightarrow> nat \<Rightarrow> response" where
  "JSONResponse v code =
     \<lparr>status_code = code, media_type = Some ''application/json'', content = JSONContent v\<rparr>"

definition PlainTextResponse :: "string \<Rightarrow> nat \<Rightarrow> response" where
  "PlainTextResponse t code =
     \<lparr>status_code = code, media_type = Some ''text/plain'', content = TextContent t\<rparr>"

definition HTMLResponse :: "docs_page \<Rightarrow> response" where
  "HTMLResponse d =
     \<lparr>status_code = 200, media_type = Some ''text/html'', content = DocsContent d\<rparr>"

definition RedirectResponse :: response where
  "RedirectResponse = \<lparr>status_code = 307, media_type = None, content = NoContent\<rparr>"

text \<open>
  Building a JSON response renders its content at once, as
  \<open>json.dumps(content, ensure_ascii=False).encode("utf-8")\<close>: the encoding step raises on
  a string that cannot be encoded, and then there is no response.
\<close>

definition render :: "pyval \<Rightarrow> nat \<Rightarrow> exn + response" where
  "render v code = (if encodable v then Inr (JSONResponse v code) else Inl UnicodeEncodeError)"

text \<open>
  The library's answer to an HTTP error raised while routing: a JSON object with the
  one key \<open>detail\<close> holding the status phrase.
\<close>

definition not_found :: response where
  "not_found = JSONResponse (PyDict [(''detail'', PyStr ''Not Found'')]) 404"

definition method_not_allowed :: response where
  "method_not_allowed = JSONResponse (PyDict [(''detail'', PyStr ''Method Not Allowed'')]) 405"

text \<open>
  Its answer to any other exception (the application is not in debug mode:
  \<open>FastAPI()\<close> is called without arguments).
\<close>

definition internal_server_error :: response where
  "internal_server_error = PlainTextResponse ''Internal Server Error'' 500"

subsection \<open>The application object\<close>

text \<open>
  An endpoint is either one of the library's own pages or a function of the module. The
  library hands an endpoint the request parameters its signature declares.
\<close>

datatype endpoint =
    Docs docs_page
  | Handler "request \<Rightarrow> world \<Rightarrow> (exn + pyval) \<times> world"

record route =
  route_path :: string
  methods :: "string set"
  endpoint :: endpoint

text \<open>
  The application instance: its route table, the OpenAPI schema it caches the first
  time the schema is asked for, and the middleware stack it builds and keeps the first
  time it is called (\<open>False\<close>: not there yet).
\<close>

record fastapi =
  routes :: "route list"
  openapi_schema :: bool
  middleware_stack :: bool

text \<open>
  \<open>FastAPI()\<close> with no arguments: the documentation routes are enabled at their default
  paths, each answering \<open>GET\<close> and \<open>HEAD\<close>.
\<close>

definition FastAPI :: fastapi where
  "FastAPI =
     \<lparr>routes =
        [\<lparr>route_path = ''/openapi.json'', methods = {''GET'', ''HEAD''}, endpoint = Docs openapi\<rparr>,
         \<lparr>route_path = ''/docs'', methods = {''GET'', ''HEAD''}, endpoint = Docs swagger_ui_html\<rparr>,
         \<lparr>route_path = ''/docs/oauth2-redirect'', methods = {''GET'', ''HEAD''},
          endpoint = Docs swagger_ui_redirect\<rparr>,
         \<lparr>route_path = ''/redoc'', methods = {''GET'', ''HEAD''}, endpoint = Docs redoc_html\<rparr>],
      openapi_schema = False,
      middleware_stack = False\<rparr>"

text \<open>\<open>@app.get(p)\<close> appends a route for the method \<open>GET\<close> alone.\<close>

definition get :: "string \<Rightarrow> (request \<Rightarrow> world \<Rightarrow> (exn + pyval) \<times> world) \<Rightarrow> fastapi \<Rightarrow> fastapi" where
  "get p f a = a\<lparr>routes := routes a @ [\<lparr>route_path = p, methods = {''GET''}, endpoint = Handler f\<rparr>]\<rparr>"

text \<open>
  The module's two top-level statements. \<open>read_root\<close> declares no parameter, so the
  library calls it with none: the request does not reach it.
\<close>

definition app :: fastapi where
  "app = get ''/'' (\<lambda>rq. read_root) FastAPI"

text \<open>Which endpoints are functions of the module rather than pages of the library.\<close>

fun is_handler :: "endpoint \<Rightarrow> bool" where
  "is_handler (Handler f) = True"
| "is_handler (Docs d) = False"

text \<open>The names the module binds at top level, in source order, with what each is bound to.\<close>

datatype binding = Imported | Instance | Function

definition module_globals :: "(string \<times> binding) list" where
  "module_globals =
     [(''FastAPI'', Imported), (''socket'', Imported), (''app'', Instance), (''read_root'', Function)]"

subsection \<open>Routing\<close>

text \<open>
  A registered path without parameters is compiled to the regular expression
  \<open>^path$\<close> and tried with \<open>re.match\<close>. In Python \<open>$\<close> matches at the end of the
  string and also just before a newline that ends the string: the expression accepts
  the path itself and the path followed by one newline.
\<close>

definition path_regex_match :: "string \<Rightarrow> string \<Rightarrow> bool" where
  "path_regex_match pat p = (p = pat \<or> p = pat @ [CHR 0x0A])"

text \<open>
  A route matches a request fully when path and HTTP method agree, partially when only
  the path does.
\<close>

datatype match = NONE | PARTIAL | FULL

definition matches :: "route \<Rightarrow> request \<Rightarrow> match" where
  "matches r rq =
     (if path_regex_match (route_path r) (path rq)
      then (if http_method rq \<in> methods r then FULL else PARTIAL)
      else NONE)"

text \<open>
  The router walks the table in order: the first full match wins at once; the first
  partial match is remembered and used when no route matches fully.
\<close>

fun find_route :: "route list \<Rightarrow> request \<Rightarrow> route option \<Rightarrow> (match \<times> route) option" where
  "find_route [] rq partial = map_option (Pair PARTIAL) partial"
| "find_route (r # rs) rq partial =
     (case matches r rq of
        FULL \<Rightarrow> Some (FULL, r)
      | PARTIAL \<Rightarrow> find_route rs rq (case partial of None \<Rightarrow> Some r | Some r' \<Rightarrow> Some r')
      | NONE \<Rightarrow> find_route rs rq partial)"

text \<open>
  When nothing matches and the path is not \<open>/\<close>, the router tries the path with its
  trailing slashes toggled and redirects if some route matches that one.
\<close>

definition redirect_path :: "string \<Rightarrow> string" where
  "redirect_path p =
     (if p \<noteq> [] \<and> last p = CHR ''/''
      then rev (dropWhile (\<lambda>c. c = CHR ''/'') (rev p))
      else p @ ''/'')"

definition redirect_slashes :: "route list \<Rightarrow> request \<Rightarrow> bool" where
  "redirect_slashes rs rq =
     (path rq \<noteq> ''/'' \<and> list_ex (\<lambda>r. matches r (rq\<lparr>path := redirect_path (path rq)\<rparr>) \<noteq> NONE) rs)"

subsection \<open>Serving a request\<close>

text \<open>The running process: the module's one global object and the environment around it.\<close>

record process =
  module_app :: fastapi
  os :: world

text \<open>
  Calling an endpoint gives a response or an exception. What a handler returns is
  rendered as a JSON response with status 200; an exception of the handler or of the
  rendering goes on upwards.
\<close>

fun call_endpoint :: "endpoint \<Rightarrow> process \<Rightarrow> request \<Rightarrow> (exn + response) \<times> process" where
  "call_endpoint (Handler f) s rq =
     (case f rq (os s) of
        (Inr v, w') \<Rightarrow> (render v 200, s\<lparr>os := w'\<rparr>)
      | (Inl e, w') \<Rightarrow> (Inl e, s\<lparr>os := w'\<rparr>))"
| "call_endpoint (Docs openapi) s rq =
     (Inr \<lparr>status_code = 200, media_type = Some ''application/json'', content = DocsContent openapi\<rparr>,
      s\<lparr>module_app := (module_app s)\<lparr>openapi_schema := True\<rparr>\<rparr>)"
| "call_endpoint (Docs d) s rq = (Inr (HTMLResponse d), s)"

text \<open>
  The router, with the library's handling of the HTTP errors it raises itself: "method
  not allowed" for a partial match, "not found" when nothing matches.
\<close>

definition route_request :: "process \<Rightarrow> request \<Rightarrow> (exn + response) \<times> process" where
  "route_request s rq =
     (case find_route (routes (module_app s)) rq None of
        Some (FULL, r) \<Rightarrow> call_endpoint (endpoint r) s rq
      | Some (_, r) \<Rightarrow> (Inr method_not_allowed, s)
      | None \<Rightarrow>
          if redirect_slashes (routes (module_app s)) rq then (Inr RedirectResponse, s)
          else (Inr not_found, s))"

text \<open>
  The outermost middleware: an exception that comes up from below is answered with the
  generic status 500 response and then raised again, to whatever called the application.
\<close>

definition server_error_middleware ::
    "(exn + response) \<times> process \<Rightarrow> (response \<times> exn option) \<times> process" where
  "server_error_middleware x =
     (case x of
        (Inr r, s') \<Rightarrow> ((r, None), s')
      | (Inl e, s') \<Rightarrow> ((internal_server_error, Some e), s'))"

text \<open>
  One call of the application object: it builds its middleware stack if it has none yet,
  keeps it, and passes the request through it. The result is the response sent and the
  exception raised to the caller, if any.
\<close>

definition app_call :: "process \<Rightarrow> request \<Rightarrow> (response \<times> exn option) \<times> process" where
  "app_call s rq =
     server_error_middleware
       (route_request (s\<lparr>module_app := (module_app s)\<lparr>middleware_stack := True\<rparr>\<rparr>) rq)"

text \<open>A request as the client and the process see it: the response and the state after.\<close>

definition handle :: "process \<Rightarrow> request \<Rightarrow> response \<times> process" where
  "handle s rq = (case app_call s rq of ((resp, raised), s') \<Rightarrow> (resp, s'))"

definition start :: "world \<Rightarrow> process" where
  "start w = \<lparr>module_app = app, os = w\<rparr>"

datatype event = Request request | HostnameChange "exn + string"

text \<open>
  Modelled from the spec: the server that calls the application object is not in
  \<open>app/main.py\<close>. By the spec's error handling design, a per-request error is contained
  to that request's response and never affects other requests, and the process does not
  stop on it: when the application has raised, the server drops the exception and goes
  on with the next event. The life of one instance starts with the application object
  the module built; it sees requests and, from outside, changes of what the operating
  system answers to \<open>gethostname\<close>.
\<close>

fun run :: "process \<Rightarrow> event list \<Rightarrow> response list \<times> process" where
  "run s [] = ([], s)"
| "run s (Request rq # evs) =
     (case app_call s rq of ((resp, raised), s') \<Rightarrow>
        (case run s' evs of (resps, s'') \<Rightarrow> (resp # resps, s'')))"
| "run s (HostnameChange h # evs) = run (s\<lparr>os := (os s)\<lparr>hostname := h\<rparr>\<rparr>) evs"

text \<open>A process is an instance of this service when its route table is the module's.\<close>

definition instance_of_app :: "process \<Rightarrow> bool" where
  "instance_of_app s = (routes (module_app s) = routes app)"

definition is_get_root :: "request \<Rightarrow> bool" where
  "is_get_root rq = (http_method rq = ''GET'' \<and> path rq = ''/'')"

text \<open>Which events of a life are requests.\<close>

fun is_request :: "event \<Rightarrow> bool" where
  "is_request (Request rq) = True"
| "is_request (HostnameChange h) = False"

text \<open>The field \<open>k\<close> of a response whose content is a JSON object.\<close>

definition response_field :: "response \<Rightarrow> string \<Rightarrow> pyval option" where
  "response_field r k = (case content r of JSONContent v \<Rightarrow> dict_get v k | _ \<Rightarrow> None)"

text \<open>
  The answer to \<open>GET /\<close> as a function of what \<open>gethostname\<close> answers, and the state
  of the process after it; shorthands for the lemmas.
\<close>

definition root_response :: "exn + string \<Rightarrow> response" where
  "root_response x =
     (case x of
        Inl e \<Rightarrow> internal_server_error
      | Inr h \<Rightarrow>
          if utf8_valid h
          then JSONResponse (PyDict [(''message'', PyStr ''Hello from FastAPI''), (''hostname'', PyStr h)]) 200
          else internal_server_error)"

definition after_call :: "process \<Rightarrow> process" where
  "after_call s = s\<lparr>module_app := (module_app s)\<lparr>middleware_stack := True\<rparr>\<rparr>"

definition after_get_root :: "process \<Rightarrow> process" where
  "after_get_root s =
     s\<lparr>module_app := (module_app s)\<lparr>middleware_stack := True\<rparr>,
       os := (os s)\<lparr>syscalls := syscalls (os s) @ [''gethostname'']\<rparr>\<rparr>"

text \<open>The paths of the route table.\<close>

definition registered_paths :: "string set" where
  "registered_paths = {''/openapi.json'', ''/docs'', ''/docs/oauth2-redirect'', ''/redoc'', ''/''}"

text \<open>Concrete inputs used below.\<close>

definition get_root :: request where
  "get_root = \<lparr>http_method = ''GET'', path = ''/'', query_string = '''', headers = [], body = ''''\<rparr>"

definition web1 :: world where
  "web1 = \<lparr>hostname = Inr ''web-1'', syscalls = []\<rparr>"

definition with_query :: request where
  "with_query =
     \<lparr>http_method = ''GET'', path = ''/'', query_string = ''x=1'',
      headers = [(''x-forwarded-for'', ''10.0.0.7'')], body = ''payload''\<rparr>"

section \<open>Routing and serving lemmas\<close>

lemma run_Request [simp]:
  "run s (Request rq # evs) =
     (case handle s rq of (resp, s') \<Rightarrow>
        (case run s' evs of (resps, s'') \<Rightarrow> (resp # resps, s'')))"
  by (simp add: handle_def split: prod.splits)

declare run.simps(2) [simp del]

lemma routes_app:
  "routes app = routes FastAPI @ [\<lparr>route_path = ''/'', methods = {''GET''}, endpoint = Handler (\<lambda>rq. read_root)\<rparr>]"
  by (simp add: app_def get_def)

lemma find_root_full:
  "is_get_root rq \<Longrightarrow>
   find_route (routes app) rq None =
     Some (FULL, \<lparr>route_path = ''/'', methods = {''GET''}, endpoint = Handler (\<lambda>rq. read_root)\<rparr>)"
  by (simp add: is_get_root_def app_def get_def FastAPI_def matches_def path_regex_match_def)

lemma find_root_partial:
  "path rq = ''/'' \<Longrightarrow> http_method rq \<noteq> ''GET'' \<Longrightarrow>
   find_route (routes app) rq None =
     Some (PARTIAL, \<lparr>route_path = ''/'', methods = {''GET''}, endpoint = Handler (\<lambda>rq. read_root)\<rparr>)"
  by (simp add: app_def get_def FastAPI_def matches_def path_regex_match_def)

lemma find_none:
  "path rq \<notin> registered_paths \<union> (\<lambda>p. p @ [CHR 0x0A]) ` registered_paths \<Longrightarrow>
   find_route (routes app) rq None = None"
  by (simp add: app_def get_def FastAPI_def matches_def path_regex_match_def registered_paths_def)

lemma no_redirect:
  "redirect_path (path rq) \<notin> registered_paths \<union> (\<lambda>p. p @ [CHR 0x0A]) ` registered_paths \<Longrightarrow>
   \<not> redirect_slashes (routes app) rq"
  by (simp add: redirect_slashes_def app_def get_def FastAPI_def matches_def path_regex_match_def
      registered_paths_def)

lemma registered_paths_app: "registered_paths = route_path ` set (routes app)"
  by (auto simp: registered_paths_def app_def get_def FastAPI_def)

lemma read_root_eq:
  "read_root w =
     (case hostname w of
        Inl e \<Rightarrow> Inl e
      | Inr h \<Rightarrow> Inr (PyDict [(''message'', PyStr ''Hello from FastAPI''), (''hostname'', PyStr h)]),
      w\<lparr>syscalls := syscalls w @ [''gethostname'']\<rparr>)"
  by (simp add: read_root_def socket_gethostname_def split: sum.splits)

lemma body_encodable:
  "encodable (PyDict [(''message'', PyStr ''Hello from FastAPI''), (''hostname'', PyStr h)]) = utf8_valid h"
  by (simp add: utf8_valid_def)

lemma find_route_mem:
  "find_route rs rq p = Some (m, r) \<Longrightarrow> r \<in> set rs \<or> p = Some r"
  by (induction rs arbitrary: p) (auto split: match.splits option.splits)

lemma app_endpoints:
  "r \<in> set (routes app) \<Longrightarrow> (\<exists>d. endpoint r = Docs d) \<or> endpoint r = Handler (\<lambda>rq. read_root)"
  by (auto simp: app_def get_def FastAPI_def)

lemma call_endpoint_routes:
  "routes (module_app (snd (call_endpoint e s rq))) = routes (module_app s)"
  by (cases "(e, s, rq)" rule: call_endpoint.cases) (auto split: prod.splits sum.splits)

lemma route_request_routes:
  "routes (module_app (snd (route_request s rq))) = routes (module_app s)"
  by (simp add: route_request_def call_endpoint_routes split: option.splits match.splits prod.splits)

lemma snd_server_error_middleware: "snd (server_error_middleware x) = snd x"
  by (simp add: server_error_middleware_def split: prod.splits sum.splits)

lemma snd_handle: "snd (handle s rq) = snd (app_call s rq)"
  by (simp add: handle_def split: prod.splits)

lemma snd_app_call: "snd (app_call s rq) = snd (route_request (after_call s) rq)"
  by (simp add: app_call_def after_call_def snd_server_error_middleware)

lemma handle_routes:
  "routes (module_app (snd (handle s rq))) = routes (module_app s)"
  by (simp add: snd_handle snd_app_call route_request_routes after_call_def)

lemma call_docs_os: "os (snd (call_endpoint (Docs d) s rq)) = os s"
  by (cases d) simp_all

lemma call_read_root_hostname:
  "hostname (os (snd (call_endpoint (Handler (\<lambda>rq. read_root)) s rq))) = hostname (os s)"
  by (simp add: read_root_eq split: sum.splits)

lemma route_request_hostname:
  assumes "routes (module_app s) = routes app"
  shows "hostname (os (snd (route_request s rq))) = hostname (os s)"
proof (cases "find_route (routes (module_app s)) rq None")
  case None
  then show ?thesis by (simp add: route_request_def)
next
  case (Some mr)
  obtain m r where mr: "mr = (m, r)" by (cases mr)
  with Some assms have "r \<in> set (routes app)"
    using find_route_mem [of "routes app" rq None m r] by simp
  then have "hostname (os (snd (call_endpoint (endpoint r) s rq))) = hostname (os s)"
    using app_endpoints [of r] call_docs_os call_read_root_hostname by auto
  with Some mr show ?thesis
    by (cases m) (simp_all add: route_request_def)
qed

lemma handle_hostname:
  assumes "instance_of_app s"
  shows "hostname (os (snd (handle s rq))) = hostname (os s)"
  using assms route_request_hostname [of "after_call s" rq]
  by (simp add: snd_handle snd_app_call instance_of_app_def after_call_def)

lemma handle_instance:
  "instance_of_app s \<Longrightarrow> instance_of_app (snd (handle s rq))"
  by (simp add: instance_of_app_def handle_routes)

lemma app_call_get_root:
  "instance_of_app s \<Longrightarrow> is_get_root rq \<Longrightarrow>
   app_call s rq =
     ((root_response (hostname (os s)),
       (case hostname (os s) of
          Inl e \<Rightarrow> Some e
        | Inr h \<Rightarrow> if utf8_valid h then None else Some UnicodeEncodeError)),
      after_get_root s)"
proof -
  assume inst: "instance_of_app s" and root: "is_get_root rq"
  let ?s1 = "s\<lparr>module_app := (module_app s)\<lparr>middleware_stack := True\<rparr>\<rparr>"
  have "find_route (routes (module_app ?s1)) rq None =
      Some (FULL, \<lparr>route_path = ''/'', methods = {''GET''}, endpoint = Handler (\<lambda>rq. read_root)\<rparr>)"
    using inst root by (simp add: instance_of_app_def find_root_full)
  then have rr: "route_request ?s1 rq = call_endpoint (Handler (\<lambda>rq. read_root)) ?s1 rq"
    by (simp add: route_request_def)
  show ?thesis
  proof (cases "hostname (os s)")
    case (Inl e)
    then show ?thesis
      by (simp add: app_call_def rr read_root_eq server_error_middleware_def root_response_def
          after_get_root_def)
  next
    case (Inr h)
    then show ?thesis
      by (simp add: app_call_def rr read_root_eq render_def body_encodable
          server_error_middleware_def root_response_def after_get_root_def del: encodable.simps)
  qed
qed

lemma handle_get_root:
  "instance_of_app s \<Longrightarrow> is_get_root rq \<Longrightarrow>
   handle s rq = (root_response (hostname (os s)), after_get_root s)"
  by (simp add: handle_def app_call_get_root)

lemma run_append:
  "run s (evs @ evs') =
     (case run s evs of (rs, s') \<Rightarrow> (case run s' evs' of (rs', s'') \<Rightarrow> (rs @ rs', s'')))"
proof (induction evs arbitrary: s)
  case Nil
  show ?case by (simp split: prod.splits)
next
  case (Cons ev evs)
  show ?case by (cases ev) (simp_all add: Cons.IH split: prod.splits)
qed

lemma run_instance:
  "instance_of_app s \<Longrightarrow> instance_of_app (snd (run s evs))"
proof (induction evs arbitrary: s)
  case Nil
  then show ?case by simp
next
  case (Cons ev evs)
  show ?case
  proof (cases ev)
    case (Request rq)
    have "instance_of_app (snd (handle s rq))" using Cons.prems by (rule handle_instance)
    then have "instance_of_app (snd (run (snd (handle s rq)) evs))" by (rule Cons.IH)
    with Request show ?thesis
      by (cases "handle s rq"; cases "run (snd (handle s rq)) evs") simp
  next
    case (HostnameChange h)
    have "instance_of_app (s\<lparr>os := (os s)\<lparr>hostname := h\<rparr>\<rparr>)"
      using Cons.prems by (simp add: instance_of_app_def)
    then have "instance_of_app (snd (run (s\<lparr>os := (os s)\<lparr>hostname := h\<rparr>\<rparr>) evs))" by (rule Cons.IH)
    with HostnameChange show ?thesis by simp
  qed
qed

lemma start_instance: "instance_of_app (start w)"
  by (simp add: instance_of_app_def start_def)

lemma get_root_is_get_root: "is_get_root get_root"
  by (simp add: is_get_root_def get_root_def)

lemma run_requests_root:
  "instance_of_app s \<Longrightarrow> list_all is_request evs \<Longrightarrow> i < length evs \<Longrightarrow>
   evs ! i = Request rq \<Longrightarrow> is_get_root rq \<Longrightarrow>
   fst (run s evs) ! i = root_response (hostname (os s))"
proof (induction evs arbitrary: s i)
  case Nil
  then show ?case by simp
next
  case (Cons ev evs)
  from Cons.prems obtain rq0 where ev: "ev = Request rq0" by (cases ev) auto
  let ?s' = "snd (handle s rq0)"
  have inst: "instance_of_app ?s'" using Cons.prems(1) by (rule handle_instance)
  have os: "hostname (os ?s') = hostname (os s)" using Cons.prems(1) by (rule handle_hostname)
  show ?case
  proof (cases i)
    case 0
    with Cons.prems ev have "rq0 = rq" by simp
    then have "fst (handle s rq0) = root_response (hostname (os s))"
      using Cons.prems by (simp add: handle_get_root)
    with 0 ev show ?thesis
      by (cases "handle s rq0"; cases "run (snd (handle s rq0)) evs") simp
  next
    case (Suc k)
    with Cons.prems have "fst (run ?s' evs) ! k = root_response (hostname (os ?s'))"
      by (intro Cons.IH inst) auto
    with Suc ev os show ?thesis
      by (cases "handle s rq0"; cases "run (snd (handle s rq0)) evs") simp
  qed
qed

lemma with_query_is_get_root: "is_get_root with_query"
  by (simp add: is_get_root_def with_query_def)

lemma os_start: "os (start w) = w"
  by (simp add: start_def)

lemma utf8_valid_web: "utf8_valid ''web-1'' \<and> utf8_valid ''web-2'' \<and> utf8_valid ''''"
  by (simp add: utf8_valid_def)

lemma not_utf8_valid_ff: "\<not> utf8_valid [CHR 0xFF]"
  by (simp add: utf8_valid_def)

section \<open>The claims\<close>

subsection \<open>C1: the answer to GET /\<close>

text \<open>
  C1, as stated: every request to \<open>GET /\<close> is answered with status 200. It is not:
  \<open>read_root\<close> does not catch the \<open>OSError\<close> of \<open>socket.gethostname()\<close>, and
  the request is then answered with status 500; so is a request served while the host
  name is not well-formed UTF-8 (here the one byte \<open>0xFF\<close>), because the body
  \<open>read_root\<close> returns cannot be rendered.
\<close>

theorem get_root_server_error_counterexample:
  "is_get_root get_root \<and>
   status_code (fst (handle (start (web1\<lparr>hostname := Inl (OSError 14)\<rparr>)) get_root)) = 500 \<and>
   status_code (fst (handle (start (web1\<lparr>hostname := Inr [CHR 0xFF]\<rparr>)) get_root)) = 500"
  by (simp add: handle_get_root start_instance get_root_is_get_root os_start root_response_def
      not_utf8_valid_ff internal_server_error_def PlainTextResponse_def)

text \<open>
  C1, amended: every request to \<open>GET /\<close> during which hostname resolution succeeds
  with a name that can be encoded as UTF-8 is answered with status 200 and media type
  \<open>application/json\<close>; the content is a JSON object with exactly the keys \<open>message\<close>
  and \<open>hostname\<close>, where \<open>message\<close> is the literal \<open>Hello from FastAPI\<close> and
  \<open>hostname\<close> is the resolved host identity.
\<close>

theorem get_root_ok:
  assumes "instance_of_app s" and "is_get_root rq"
    and "hostname (os s) = Inr h" and "utf8_valid h"
  shows "status_code (fst (handle s rq)) = 200 \<and>
         media_type (fst (handle s rq)) = Some ''application/json'' \<and>
         (\<exists>v. content (fst (handle s rq)) = JSONContent v \<and>
              dict_keys v = [''message'', ''hostname''] \<and>
              dict_get v ''message'' = Some (PyStr ''Hello from FastAPI'') \<and>
              dict_get v ''hostname'' = Some (PyStr h))"
  using assms by (simp add: handle_get_root root_response_def JSONResponse_def)

theorem get_root_ok_witness:
  "instance_of_app (start web1) \<and> is_get_root get_root \<and>
   hostname (os (start web1)) = Inr ''web-1'' \<and> utf8_valid ''web-1'' \<and>
   status_code (fst (handle (start web1) get_root)) = 200 \<and>
   media_type (fst (handle (start web1) get_root)) = Some ''application/json'' \<and>
   (\<exists>v. content (fst (handle (start web1) get_root)) = JSONContent v \<and>
        dict_keys v = [''message'', ''hostname''] \<and>
        dict_get v ''message'' = Some (PyStr ''Hello from FastAPI'') \<and>
        dict_get v ''hostname'' = Some (PyStr ''web-1''))"
proof -
  have a: "instance_of_app (start web1)" by (rule start_instance)
  have b: "is_get_root get_root" by (rule get_root_is_get_root)
  have c: "hostname (os (start web1)) = Inr ''web-1''" by (simp add: start_def web1_def)
  have d: "utf8_valid ''web-1''" by (simp add: utf8_valid_def)
  from get_root_ok [OF a b c d] a b c d show ?thesis by blast
qed

subsection \<open>C2: the hostname field\<close>

text \<open>
  C2, as stated: the \<open>hostname\<close> field of every answer to \<open>GET /\<close> is a non-empty
  string equal to the reported host identity. The handler passes on what
  \<open>socket.gethostname()\<close> returns without looking at it: where the operating system
  reports the empty name, the field is the empty string; and where it reports a name
  that is not well-formed UTF-8, the answer has no \<open>hostname\<close> field at all.
\<close>

theorem empty_hostname_counterexample:
  "is_get_root get_root \<and>
   response_field (fst (handle (start (web1\<lparr>hostname := Inr ''''\<rparr>)) get_root)) ''hostname'' =
     Some (PyStr '''') \<and>
   response_field (fst (handle (start (web1\<lparr>hostname := Inr [CHR 0xFF]\<rparr>)) get_root)) ''hostname'' =
     None"
  by (simp add: handle_get_root start_instance get_root_is_get_root os_start root_response_def
      utf8_valid_web not_utf8_valid_ff response_field_def JSONResponse_def
      internal_server_error_def PlainTextResponse_def)

text \<open>
  C2, amended: for every request to \<open>GET /\<close> during which hostname resolution
  succeeds with a name that can be encoded as UTF-8, the \<open>hostname\<close> field of the
  response is a string equal to the host identity the operating environment reports at
  that request; it is non-empty exactly when that identity is.
\<close>

theorem hostname_field_reported:
  assumes "instance_of_app s" and "is_get_root rq"
    and "hostname (os s) = Inr h" and "utf8_valid h"
  shows "response_field (fst (handle s rq)) ''hostname'' = Some (PyStr h)"
  using assms by (simp add: handle_get_root root_response_def response_field_def JSONResponse_def)

theorem hostname_field_reported_witness:
  "instance_of_app (start web1) \<and> is_get_root get_root \<and>
   hostname (os (start web1)) = Inr ''web-1'' \<and> utf8_valid ''web-1'' \<and>
   response_field (fst (handle (start web1) get_root)) ''hostname'' = Some (PyStr ''web-1'')"
proof -
  have a: "instance_of_app (start web1)" by (rule start_instance)
  have b: "is_get_root get_root" by (rule get_root_is_get_root)
  have c: "hostname (os (start web1)) = Inr ''web-1''" by (simp add: start_def web1_def)
  have d: "utf8_valid ''web-1''" by (simp add: utf8_valid_def)
  from hostname_field_reported [OF a b c d] a b c d show ?thesis by blast
qed

subsection \<open>C3: failure of hostname resolution\<close>

text \<open>
  C3: if hostname resolution fails during a request to \<open>GET /\<close>, the request is
  answered with status 500 and a generic error body, whatever the request carries and
  whatever the error is. The handler has no handling of its own: the exception leaves
  \<open>read_root\<close>, the library's outermost middleware sends this answer and raises the
  exception again to the server. The process goes on as an instance of the service:
  once resolution succeeds again with a name that can be encoded, the next
  \<open>GET /\<close> is answered with status 200 and that name.
\<close>

theorem resolution_failure_500:
  assumes "instance_of_app s" and "is_get_root rq" and "hostname (os s) = Inl e"
  shows "fst (app_call s rq) =
           (\<lparr>status_code = 500, media_type = Some ''text/plain'',
             content = TextContent ''Internal Server Error''\<rparr>, Some e) \<and>
         fst (handle s rq) =
           \<lparr>status_code = 500, media_type = Some ''text/plain'',
            content = TextContent ''Internal Server Error''\<rparr> \<and>
         instance_of_app (snd (handle s rq)) \<and>
         (utf8_valid h \<longrightarrow>
          fst (run s [Request rq, HostnameChange (Inr h), Request rq]) =
            [internal_server_error,
             JSONResponse (PyDict [(''message'', PyStr ''Hello from FastAPI''), (''hostname'', PyStr h)]) 200])"
proof -
  have 1: "app_call s rq = ((internal_server_error, Some e), after_get_root s)"
    using assms by (simp add: app_call_get_root root_response_def)
  have 2: "handle s rq = (internal_server_error, after_get_root s)"
    using assms by (simp add: handle_get_root root_response_def)
  have 3: "instance_of_app (snd (handle s rq))"
    using assms(1) by (rule handle_instance)
  let ?s' = "(after_get_root s)\<lparr>os := (os (after_get_root s))\<lparr>hostname := Inr h\<rparr>\<rparr>"
  have "instance_of_app ?s'"
    using 2 3 by (simp add: instance_of_app_def)
  then have 4: "fst (handle ?s' rq) = root_response (Inr h)"
    using assms(2) by (simp add: handle_get_root)
  have 5: "fst (run s [Request rq, HostnameChange (Inr h), Request rq]) =
      [internal_server_error, root_response (Inr h)]"
    using 2 4 by (cases "handle ?s' rq") simp
  from 1 2 3 5 show ?thesis
    by (simp add: internal_server_error_def PlainTextResponse_def root_response_def)
qed

theorem resolution_failure_500_witness:
  "instance_of_app (start (web1\<lparr>hostname := Inl (OSError 14)\<rparr>)) \<and> is_get_root with_query \<and>
   hostname (os (start (web1\<lparr>hostname := Inl (OSError 14)\<rparr>))) = Inl (OSError 14) \<and>
   utf8_valid ''web-2'' \<and>
   status_code (fst (handle (start (web1\<lparr>hostname := Inl (OSError 14)\<rparr>)) with_query)) = 500 \<and>
   snd (fst (app_call (start (web1\<lparr>hostname := Inl (OSError 14)\<rparr>)) with_query)) = Some (OSError 14) \<and>
   map status_code
     (fst (run (start (web1\<lparr>hostname := Inl (OSError 14)\<rparr>))
        [Request with_query, HostnameChange (Inr ''web-2''), Request with_query])) = [500, 200]"
proof -
  let ?s = "start (web1\<lparr>hostname := Inl (OSError 14)\<rparr>)"
  have a: "instance_of_app ?s" by (rule start_instance)
  have b: "is_get_root with_query" by (rule with_query_is_get_root)
  have c: "hostname (os ?s) = Inl (OSError 14)" by (simp add: start_def)
  have d: "utf8_valid ''web-2''" by (simp add: utf8_valid_def)
  from resolution_failure_500 [OF a b c, of "''web-2''"] a b c d show ?thesis
    by (simp add: internal_server_error_def PlainTextResponse_def JSONResponse_def)
qed

subsection \<open>C4: two invocations\<close>

text \<open>
  C4, as stated: any two invocations of the handler during the life of one instance
  give identical responses. The handler asks for the host name at every request, so a
  change of the name between two requests shows in the second response.
\<close>

theorem hostname_change_counterexample:
  "is_get_root get_root \<and>
   map (\<lambda>r. response_field r ''hostname'')
     (fst (run (start web1) [Request get_root, HostnameChange (Inr ''web-2''), Request get_root])) =
   [Some (PyStr ''web-1''), Some (PyStr ''web-2'')]"
proof -
  let ?s1 = "after_get_root (start web1)"
  let ?s' = "?s1\<lparr>os := (os ?s1)\<lparr>hostname := Inr ''web-2''\<rparr>\<rparr>"
  have "instance_of_app ?s'" by (simp add: instance_of_app_def start_def after_get_root_def)
  then have "fst (handle ?s' get_root) = root_response (Inr ''web-2'')"
    by (simp add: handle_get_root get_root_is_get_root)
  moreover have "handle (start web1) get_root = (root_response (Inr ''web-1''), ?s1)"
    by (simp add: handle_get_root get_root_is_get_root start_instance os_start web1_def)
  ultimately show ?thesis
    by (cases "handle ?s' get_root")
       (simp add: root_response_def utf8_valid_web JSONResponse_def response_field_def
          get_root_is_get_root)
qed

text \<open>
  C4, amended: during a life of one instance in which the reported host identity does
  not change, any two requests to \<open>GET /\<close>, in whatever order the requests of that life
  are served, receive identical responses.
\<close>

theorem same_identity_same_response:
  assumes "instance_of_app s" and "list_all is_request evs"
    and "i < length evs" and "j < length evs"
    and "evs ! i = Request a" and "evs ! j = Request b"
    and "is_get_root a" and "is_get_root b"
  shows "fst (run s evs) ! i = fst (run s evs) ! j"
  using assms by (simp add: run_requests_root)

theorem same_identity_same_response_witness:
  "instance_of_app (start web1) \<and> list_all is_request [Request get_root, Request with_query] \<and>
   (0::nat) < length [Request get_root, Request with_query] \<and>
   (1::nat) < length [Request get_root, Request with_query] \<and>
   [Request get_root, Request with_query] ! 0 = Request get_root \<and>
   [Request get_root, Request with_query] ! 1 = Request with_query \<and>
   is_get_root get_root \<and> is_get_root with_query \<and>
   fst (run (start web1) [Request get_root, Request with_query]) ! 0 =
   fst (run (start web1) [Request get_root, Request with_query]) ! 1"
proof -
  let ?evs = "[Request get_root, Request with_query]"
  have a: "instance_of_app (start web1)" by (rule start_instance)
  have b: "list_all is_request ?evs" by simp
  have c: "(0::nat) < length ?evs" by simp
  have d: "(1::nat) < length ?evs" by simp
  have e: "?evs ! 0 = Request get_root" by simp
  have f: "?evs ! 1 = Request with_query" by simp
  have g: "is_get_root get_root" by (rule get_root_is_get_root)
  have h: "is_get_root with_query" by (rule with_query_is_get_root)
  from same_identity_same_response [OF a b c d e f g h] a b c d e f g h show ?thesis by blast
qed

subsection \<open>C5: other paths and other methods\<close>

text \<open>
  C5, as stated: every request to a path other than \<open>/\<close> is answered "not found".
  The application is built by \<open>FastAPI()\<close> with no arguments, which enables the
  library's documentation routes: \<open>GET /docs\<close> is answered with status 200.
\<close>

theorem docs_route_counterexample:
  "path (get_root\<lparr>path := ''/docs''\<rparr>) \<noteq> ''/'' \<and>
   fst (handle (start web1) (get_root\<lparr>path := ''/docs''\<rparr>)) = HTMLResponse swagger_ui_html \<and>
   status_code (fst (handle (start web1) (get_root\<lparr>path := ''/docs''\<rparr>))) = 200"
  by (simp add: handle_def app_call_def route_request_def server_error_middleware_def start_def
      get_root_def app_def get_def FastAPI_def matches_def path_regex_match_def HTMLResponse_def)

text \<open>
  C5, amended: the registered paths are \<open>/\<close> and the library's documentation paths
  \<open>/openapi.json\<close>, \<open>/docs\<close>, \<open>/docs/oauth2-redirect\<close> and \<open>/redoc\<close>. Every
  request whose path is none of these, nor one of these followed by a single newline,
  and does not become one of either kind when its trailing slashes are toggled, receives
  the library's standard "not found" response (status 404). Every request to \<open>/\<close> with
  a method other than \<open>GET\<close> receives the library's standard "method not allowed"
  response (status 405). Neither changes the process beyond the middleware stack that
  the application builds at its first call.
\<close>

theorem unregistered_routes:
  assumes "instance_of_app s"
  shows "(path rq \<notin> registered_paths \<union> (\<lambda>p. p @ [CHR 0x0A]) ` registered_paths \<and>
          redirect_path (path rq) \<notin> registered_paths \<union> (\<lambda>p. p @ [CHR 0x0A]) ` registered_paths
          \<longrightarrow> handle s rq = (not_found, s\<lparr>module_app := (module_app s)\<lparr>middleware_stack := True\<rparr>\<rparr>)) \<and>
         (path rq = ''/'' \<and> http_method rq \<noteq> ''GET''
          \<longrightarrow> handle s rq =
                (method_not_allowed, s\<lparr>module_app := (module_app s)\<lparr>middleware_stack := True\<rparr>\<rparr>)) \<and>
         status_code not_found = 404 \<and> status_code method_not_allowed = 405 \<and>
         registered_paths = route_path ` set (routes app)"
proof -
  let ?s1 = "s\<lparr>module_app := (module_app s)\<lparr>middleware_stack := True\<rparr>\<rparr>"
  have rs: "routes (module_app s) = routes app"
    using assms by (simp add: instance_of_app_def)
  have nf: "handle s rq = (not_found, ?s1)"
    if "path rq \<notin> registered_paths \<union> (\<lambda>p. p @ [CHR 0x0A]) ` registered_paths"
      and "redirect_path (path rq) \<notin> registered_paths \<union> (\<lambda>p. p @ [CHR 0x0A]) ` registered_paths"
    using find_none [OF that(1)] no_redirect [OF that(2)]
    by (simp add: handle_def app_call_def route_request_def server_error_middleware_def rs)
  have na: "handle s rq = (method_not_allowed, ?s1)"
    if "path rq = ''/''" and "http_method rq \<noteq> ''GET''"
    using find_root_partial [OF that]
    by (simp add: handle_def app_call_def route_request_def server_error_middleware_def rs)
  show ?thesis using nf na registered_paths_app
    by (simp add: not_found_def method_not_allowed_def JSONResponse_def)
qed

theorem unregistered_routes_witness:
  "instance_of_app (start web1) \<and>
   status_code (fst (handle (start web1) (get_root\<lparr>path := ''/nonexistent''\<rparr>))) = 404 \<and>
   status_code (fst (handle (start web1) (get_root\<lparr>http_method := ''POST''\<rparr>))) = 405"
proof -
  have a: "instance_of_app (start web1)" by (rule start_instance)
  have b: "path (get_root\<lparr>path := ''/nonexistent''\<rparr>)
             \<notin> registered_paths \<union> (\<lambda>p. p @ [CHR 0x0A]) ` registered_paths"
    by (simp add: registered_paths_def)
  have c: "redirect_path (path (get_root\<lparr>path := ''/nonexistent''\<rparr>))
             \<notin> registered_paths \<union> (\<lambda>p. p @ [CHR 0x0A]) ` registered_paths"
    by (simp add: redirect_path_def registered_paths_def)
  have d: "path (get_root\<lparr>http_method := ''POST''\<rparr>) = ''/'' \<and>
           http_method (get_root\<lparr>http_method := ''POST''\<rparr>) \<noteq> ''GET''"
    by (simp add: get_root_def)
  from unregistered_routes [OF a, of "get_root\<lparr>path := ''/nonexistent''\<rparr>"]
       unregistered_routes [OF a, of "get_root\<lparr>http_method := ''POST''\<rparr>"] a b c d
  show ?thesis by simp
qed

subsection \<open>C6: no request input is consumed\<close>

text \<open>
  C6: two requests to \<open>GET /\<close> arriving in the same environment receive the same
  response and leave the same state, whatever their query strings, headers and bodies
  are.
\<close>

theorem request_data_ignored:
  assumes "instance_of_app s" and "is_get_root a" and "is_get_root b"
  shows "handle s a = handle s b"
  using assms by (simp add: handle_get_root)

theorem request_data_ignored_witness:
  "instance_of_app (start web1) \<and> is_get_root get_root \<and> is_get_root with_query \<and>
   get_root \<noteq> with_query \<and>
   handle (start web1) get_root = handle (start web1) with_query"
proof -
  have a: "instance_of_app (start web1)" by (rule start_instance)
  have b: "is_get_root get_root" by (rule get_root_is_get_root)
  have c: "is_get_root with_query" by (rule with_query_is_get_root)
  have d: "get_root \<noteq> with_query" by (simp add: get_root_def with_query_def)
  from request_data_ignored [OF a b c] a b c d show ?thesis by blast
qed

subsection \<open>C7: side effects\<close>

text \<open>
  C7, as stated: every invocation leaves all process state unchanged. The first request
  an instance handles, \<open>GET /\<close> included, makes the application object build its
  middleware stack and keep it: the module's global \<open>app\<close> is not the same after.
\<close>

theorem first_request_counterexample:
  "is_get_root get_root \<and>
   middleware_stack (module_app (start web1)) = False \<and>
   middleware_stack (module_app (snd (handle (start web1) get_root))) = True"
  by (simp add: handle_get_root start_instance get_root_is_get_root after_get_root_def)
     (simp add: start_def app_def get_def FastAPI_def)

text \<open>
  C7, amended: handling a request to \<open>GET /\<close> has these effects and no others: the
  handler makes one call out of the process, the read \<open>gethostname\<close>, so nothing is
  written to disk and no external service is called; what the environment reports is as
  before; and of the program state, the route table and the schema cache of the
  application object are as before, while its middleware stack is there afterwards. On
  an instance that has already handled a request, handling \<open>GET /\<close> leaves the
  application object unchanged. \<open>read_root\<close> itself touches nothing but the record of
  that one call.
\<close>

theorem get_root_no_side_effects:
  assumes "instance_of_app s" and "is_get_root rq"
  shows "snd (handle s rq) =
           s\<lparr>module_app := (module_app s)\<lparr>middleware_stack := True\<rparr>,
             os := (os s)\<lparr>syscalls := syscalls (os s) @ [''gethostname'']\<rparr>\<rparr> \<and>
         snd (read_root (os s)) = (os s)\<lparr>syscalls := syscalls (os s) @ [''gethostname'']\<rparr> \<and>
         (middleware_stack (module_app s) \<longrightarrow> module_app (snd (handle s rq)) = module_app s)"
  using assms by (simp add: handle_get_root after_get_root_def read_root_eq)

theorem get_root_no_side_effects_witness:
  "instance_of_app (snd (handle (start web1) get_root)) \<and> is_get_root with_query \<and>
   middleware_stack (module_app (snd (handle (start web1) get_root))) \<and>
   module_app (snd (handle (snd (handle (start web1) get_root)) with_query)) =
     module_app (snd (handle (start web1) get_root)) \<and>
   hostname (os (snd (handle (snd (handle (start web1) get_root)) with_query))) = Inr ''web-1'' \<and>
   syscalls (os (snd (handle (snd (handle (start web1) get_root)) with_query))) =
     [''gethostname'', ''gethostname'']"
proof -
  let ?s = "snd (handle (start web1) get_root)"
  have s: "?s = after_get_root (start web1)"
    by (simp add: handle_get_root start_instance get_root_is_get_root)
  have a: "instance_of_app ?s" by (rule handle_instance [OF start_instance])
  have b: "is_get_root with_query" by (rule with_query_is_get_root)
  have c: "middleware_stack (module_app ?s)" by (simp add: s after_get_root_def)
  have d: "hostname (os ?s) = Inr ''web-1''" "syscalls (os ?s) = [''gethostname'']"
    unfolding s by (simp_all add: after_get_root_def start_def web1_def)
  from get_root_no_side_effects [OF a b] a b c d show ?thesis by simp
qed

subsection \<open>C8: the fields of the body\<close>

text \<open>
  C8, as stated: both fields of the body \<open>read_root\<close> returns are UTF-8 strings. Where
  the host name is not well-formed UTF-8 (here the one byte \<open>0xFF\<close>), the
  \<open>hostname\<close> field of the returned body is a string that cannot be encoded as UTF-8.
\<close>

theorem unencodable_field_counterexample:
  "fst (read_root (web1\<lparr>hostname := Inr [CHR 0xFF]\<rparr>)) =
     Inr (PyDict [(''message'', PyStr ''Hello from FastAPI''), (''hostname'', PyStr [CHR 0xFF])]) \<and>
   utf8_valid [CHR 0xFF] = False"
  by (simp add: read_root_eq not_utf8_valid_ff)

text \<open>
  C8, amended: whenever \<open>read_root\<close> returns a body, both of its fields are present
  and hold strings, never \<open>None\<close>: \<open>message\<close> is the literal, which is UTF-8, and
  \<open>hostname\<close> is the string \<open>socket.gethostname()\<close> returned. If that string can be
  encoded as UTF-8, the body is the content of the response; if not, the body is not
  sent and the request is answered with the generic status 500 response. So both fields
  of every body that is sent are non-null UTF-8 strings.
\<close>

theorem response_body_fields_are_strings:
  assumes "instance_of_app s" and "is_get_root rq" and "fst (read_root (os s)) = Inr v"
  shows "\<exists>h. hostname (os s) = Inr h \<and>
             dict_get v ''message'' = Some (PyStr ''Hello from FastAPI'') \<and>
             utf8_valid ''Hello from FastAPI'' \<and>
             dict_get v ''hostname'' = Some (PyStr h) \<and>
             (utf8_valid h \<longrightarrow> content (fst (handle s rq)) = JSONContent v) \<and>
             (\<not> utf8_valid h \<longrightarrow> fst (handle s rq) = internal_server_error)"
proof (cases "hostname (os s)")
  case (Inl e)
  with assms(3) show ?thesis by (simp add: read_root_eq)
next
  case (Inr h)
  with assms(3) have v: "v = PyDict [(''message'', PyStr ''Hello from FastAPI''), (''hostname'', PyStr h)]"
    by (simp add: read_root_eq)
  have "utf8_valid ''Hello from FastAPI''" by (simp add: utf8_valid_def)
  with Inr v assms(1,2) show ?thesis
    by (simp add: handle_get_root root_response_def JSONResponse_def)
qed

theorem response_body_fields_are_strings_witness:
  "instance_of_app (start web1) \<and> is_get_root get_root \<and>
   fst (read_root (os (start web1))) =
     Inr (PyDict [(''message'', PyStr ''Hello from FastAPI''), (''hostname'', PyStr ''web-1'')]) \<and>
   utf8_valid ''web-1'' \<and>
   content (fst (handle (start web1) get_root)) =
     JSONContent (PyDict [(''message'', PyStr ''Hello from FastAPI''), (''hostname'', PyStr ''web-1'')]) \<and>
   instance_of_app (start (web1\<lparr>hostname := Inr [CHR 0xFF]\<rparr>)) \<and>
   fst (read_root (os (start (web1\<lparr>hostname := Inr [CHR 0xFF]\<rparr>)))) =
     Inr (PyDict [(''message'', PyStr ''Hello from FastAPI''), (''hostname'', PyStr [CHR 0xFF])]) \<and>
   \<not> utf8_valid [CHR 0xFF] \<and>
   fst (handle (start (web1\<lparr>hostname := Inr [CHR 0xFF]\<rparr>)) get_root) = internal_server_error"
proof -
  let ?ff = "start (web1\<lparr>hostname := Inr [CHR 0xFF]\<rparr>)"
  have a: "instance_of_app (start web1)" by (rule start_instance)
  have a': "instance_of_app ?ff" by (rule start_instance)
  have b: "is_get_root get_root" by (rule get_root_is_get_root)
  have c: "fst (read_root (os (start web1))) =
     Inr (PyDict [(''message'', PyStr ''Hello from FastAPI''), (''hostname'', PyStr ''web-1'')])"
    by (simp add: read_root_eq start_def web1_def)
  have c': "fst (read_root (os ?ff)) =
     Inr (PyDict [(''message'', PyStr ''Hello from FastAPI''), (''hostname'', PyStr [CHR 0xFF])])"
    by (simp add: read_root_eq start_def)
  have d: "utf8_valid ''web-1''" by (simp add: utf8_valid_def)
  have d': "\<not> utf8_valid [CHR 0xFF]" by (rule not_utf8_valid_ff)
  have e: "hostname (os (start web1)) = Inr ''web-1''" "hostname (os ?ff) = Inr [CHR 0xFF]"
    by (simp_all add: start_def web1_def)
  from response_body_fields_are_strings [OF a b c] response_body_fields_are_strings [OF a' b c']
       a a' b c c' d d' e
  show ?thesis by simp
qed

subsection \<open>C9: the hostname is resolved at every request\<close>

text \<open>
  C9, as stated: once the host identity has changed, the following responses reflect
  the new value. They do not when the new name is not well-formed UTF-8 (here the one
  byte \<open>0xFF\<close>): the next response has status 500 and no \<open>hostname\<close> field.
\<close>

theorem unencodable_change_counterexample:
  "is_get_root get_root \<and>
   map status_code
     (fst (run (start web1) [Request get_root, HostnameChange (Inr [CHR 0xFF]), Request get_root])) =
   [200, 500] \<and>
   map (\<lambda>r. response_field r ''hostname'')
     (fst (run (start web1) [Request get_root, HostnameChange (Inr [CHR 0xFF]), Request get_root])) =
   [Some (PyStr ''web-1''), None]"
proof -
  let ?s1 = "after_get_root (start web1)"
  let ?s' = "?s1\<lparr>os := (os ?s1)\<lparr>hostname := Inr [CHR 0xFF]\<rparr>\<rparr>"
  have "instance_of_app ?s'" by (simp add: instance_of_app_def start_def after_get_root_def)
  then have "fst (handle ?s' get_root) = root_response (Inr [CHR 0xFF])"
    by (simp add: handle_get_root get_root_is_get_root)
  moreover have "handle (start web1) get_root = (root_response (Inr ''web-1''), ?s1)"
    by (simp add: handle_get_root get_root_is_get_root start_instance os_start web1_def)
  ultimately show ?thesis
    by (cases "handle ?s' get_root")
       (simp add: root_response_def utf8_valid_web not_utf8_valid_ff JSONResponse_def
          response_field_def get_root_is_get_root internal_server_error_def PlainTextResponse_def)
qed

text \<open>
  C9, amended: the host name is asked for at request time and never cached: after any
  history of the instance, if the operating environment's host identity changes to
  \<open>h\<close>, the next request to \<open>GET /\<close> is answered from \<open>h\<close> alone: with status 200
  and \<open>hostname\<close> equal to \<open>h\<close> if \<open>h\<close> can be encoded as UTF-8, and with the
  generic status 500 response if it cannot.
\<close>

theorem hostname_resolved_per_request:
  assumes "instance_of_app s" and "is_get_root rq"
  shows "fst (run s (evs @ [HostnameChange (Inr h), Request rq])) =
           fst (run s evs) @
           [if utf8_valid h
            then JSONResponse (PyDict [(''message'', PyStr ''Hello from FastAPI''), (''hostname'', PyStr h)]) 200
            else internal_server_error]"
proof -
  let ?s1 = "snd (run s evs)"
  let ?s2 = "?s1\<lparr>os := (os ?s1)\<lparr>hostname := Inr h\<rparr>\<rparr>"
  have "instance_of_app ?s1" using assms(1) by (rule run_instance)
  then have "instance_of_app ?s2" by (simp add: instance_of_app_def)
  then have "fst (handle ?s2 rq) = root_response (Inr h)"
    using assms(2) by (simp add: handle_get_root)
  then show ?thesis
    by (cases "run s evs"; cases "handle ?s2 rq") (simp add: run_append root_response_def)
qed

theorem hostname_resolved_per_request_witness:
  "instance_of_app (start web1) \<and> is_get_root get_root \<and> utf8_valid ''web-2'' \<and>
   fst (run (start web1) ([Request get_root] @ [HostnameChange (Inr ''web-2''), Request get_root])) =
     fst (run (start web1) [Request get_root]) @
     [JSONResponse (PyDict [(''message'', PyStr ''Hello from FastAPI''), (''hostname'', PyStr ''web-2'')]) 200]"
proof -
  have a: "instance_of_app (start web1)" by (rule start_instance)
  have b: "is_get_root get_root" by (rule get_root_is_get_root)
  have c: "utf8_valid ''web-2''" by (simp add: utf8_valid_def)
  from hostname_resolved_per_request [OF a b, of "[Request get_root]" "''web-2''"] a b c
  show ?thesis by simp
qed

subsection \<open>C10: the route table and the module\<close>

text \<open>
  C10, as stated: the application object has exactly one route. Its route table has
  five: the four documentation routes that \<open>FastAPI()\<close> installs, and the one of the
  module.
\<close>

theorem five_routes_counterexample:
  "length (routes app) = 5 \<and>
   map route_path (routes app) = [''/openapi.json'', ''/docs'', ''/docs/oauth2-redirect'', ''/redoc'', ''/'']"
  by (simp add: app_def get_def FastAPI_def)

text \<open>
  C10, amended: the module registers exactly one route on the application object, the
  pair (\<open>GET\<close>, \<open>/\<close>) mapped to \<open>read_root\<close>, appended to the documentation routes
  that the constructor installs; \<open>read_root\<close> is the only handler in the route table and
  the only function the module defines, and the application instance is the only object
  the module creates at top level.
\<close>

theorem module_registers_one_route:
  "routes app =
     routes FastAPI @ [\<lparr>route_path = ''/'', methods = {''GET''}, endpoint = Handler (\<lambda>rq. read_root)\<rparr>] \<and>
   filter is_handler (map endpoint (routes FastAPI)) = [] \<and>
   filter is_handler (map endpoint (routes app)) = [Handler (\<lambda>rq. read_root)] \<and>
   map fst (filter (\<lambda>nb. snd nb = Function) module_globals) = [''read_root''] \<and>
   map fst (filter (\<lambda>nb. snd nb = Instance) module_globals) = [''app'']"
  by (simp add: app_def get_def FastAPI_def module_globals_def)

end
